theory Spec2Isabelle
  imports Main
begin

section \<open>Python values\<close>

text \<open>
  A Python \<open>str\<close> is modelled by \<open>string\<close>, one \<open>char\<close> standing for one code point
  below 256. \<open>isspace\<close> is the whitespace test shared by \<open>str.strip()\<close> and by the
  regular-expression classes \<open>\s\<close> and \<open>\S\<close> on that range.
\<close>

definition isspace :: "char \<Rightarrow> bool" where
  "isspace c = (c \<in> set [CHR 0x09, CHR 0x0A, CHR 0x0B, CHR 0x0C, CHR 0x0D,
       CHR 0x1C, CHR 0x1D, CHR 0x1E, CHR 0x1F, CHR 0x20, CHR 0x85, CHR 0xA0])"

definition lstrip :: "string \<Rightarrow> string" where
  "lstrip s = dropWhile isspace s"

definition rstrip :: "string \<Rightarrow> string" where
  "rstrip s = rev (dropWhile isspace (rev s))"

definition strip :: "string \<Rightarrow> string" where
  "strip s = rstrip (lstrip s)"

definition startswith :: "string \<Rightarrow> string \<Rightarrow> bool" where
  "startswith s p = (take (length p) s = p)"

text \<open>
  \<open>str.upper()\<close>: the ASCII letters are mapped, every other character is left as it is.
  The source only compares the result with \<open>"GET"\<close>, and no character outside ASCII
  has an upper-case form made of the letters G, E, T.
\<close>

definition upper_char :: "char \<Rightarrow> char" where
  "upper_char c = (case map_of (zip ''abcdefghijklmnopqrstuvwxyz'' ''ABCDEFGHIJKLMNOPQRSTUVWXYZ'') c of
       Some u \<Rightarrow> u
     | None \<Rightarrow> c)"

definition upper :: "string \<Rightarrow> string" where
  "upper s = map upper_char s"

text \<open>
  The values \<open>json.loads\<close> produces, which are also the values the pipeline passes
  around: \<open>None\<close>, \<open>bool\<close>, \<open>int\<close>, \<open>float\<close>, \<open>str\<close>, \<open>list\<close> and \<open>dict\<close>. A \<open>dict\<close> is
  an association list in insertion order. The pipeline never computes with a \<open>float\<close>; it
  only tests it for truth, so a float is kept as mantissa and binary exponent, or as one of
  the non-finite values \<open>json.loads\<close> accepts.
\<close>

datatype pyfloat = Finite int int | Infinite bool | NaN

datatype pyval =
    PyNone
  | PyBool bool
  | PyInt int
  | PyFloat pyfloat
  | PyStr string
  | PyList "pyval list"
  | PyDict "(string \<times> pyval) list"

fun truthy :: "pyval \<Rightarrow> bool" where
  "truthy PyNone = False"
| "truthy (PyBool b) = b"
| "truthy (PyInt i) = (i \<noteq> 0)"
| "truthy (PyFloat (Finite m e)) = (m \<noteq> 0)"
| "truthy (PyFloat (Infinite s)) = True"
| "truthy (PyFloat NaN) = True"
| "truthy (PyStr s) = (s \<noteq> [])"
| "truthy (PyList xs) = (xs \<noteq> [])"
| "truthy (PyDict kvs) = (kvs \<noteq> [])"

fun type_name :: "pyval \<Rightarrow> string" where
  "type_name PyNone = ''NoneType''"
| "type_name (PyBool b) = ''bool''"
| "type_name (PyInt i) = ''int''"
| "type_name (PyFloat f) = ''float''"
| "type_name (PyStr s) = ''str''"
| "type_name (PyList xs) = ''list''"
| "type_name (PyDict kvs) = ''dict''"

text \<open>An exception is kept as the text \<open>str(e)\<close> gives; only subclasses of \<open>Exception\<close> occur.\<close>

datatype exn = Exception string

definition no_attribute :: "pyval \<Rightarrow> string \<Rightarrow> exn" where
  "no_attribute v a = Exception ([CHR 0x27] @ type_name v @ [CHR 0x27] @ '' object has no attribute ''
       @ [CHR 0x27] @ a @ [CHR 0x27])"

text \<open>\<open>isinstance(v, dict)\<close>.\<close>

fun is_dict :: "pyval \<Rightarrow> bool" where
  "is_dict (PyDict kvs) = True"
| "is_dict v = False"

subsection \<open>Dictionary operations\<close>

definition dict_get :: "(string \<times> pyval) list \<Rightarrow> string \<Rightarrow> pyval \<Rightarrow> pyval" where
  "dict_get kvs k d = (case map_of kvs k of Some v \<Rightarrow> v | None \<Rightarrow> d)"

definition setdefault :: "string \<Rightarrow> pyval \<Rightarrow> (string \<times> pyval) list \<Rightarrow> (string \<times> pyval) list" where
  "setdefault k v kvs = (if k \<in> fst ` set kvs then kvs else kvs @ [(k, v)])"

primrec setitem :: "string \<Rightarrow> pyval \<Rightarrow> (string \<times> pyval) list \<Rightarrow> (string \<times> pyval) list" where
  "setitem k v [] = [(k, v)]"
| "setitem k v (p # ps) = (if fst p = k then (k, v) # ps else p # setitem k v ps)"

section \<open>The three regular expressions\<close>

text \<open>
  \<open>re.search\<close> tries the pattern at every position from the left and returns the first
  match; \<open>re_search m s\<close> does so for a matcher \<open>m\<close> anchored at the head of its
  argument, and yields group 1.
\<close>

fun re_search :: "(string \<Rightarrow> 'a option) \<Rightarrow> string \<Rightarrow> 'a option" where
  "re_search m [] = m []"
| "re_search m (c # cs) = (case m (c # cs) of Some g \<Rightarrow> Some g | None \<Rightarrow> re_search m cs)"

text \<open>A literal: the rest of the text behind it.\<close>

definition lit :: "string \<Rightarrow> string \<Rightarrow> string option" where
  "lit p s = (if take (length p) s = p then Some (drop (length p) s) else None)"

text \<open>
  \<open>.*c\<close> under \<open>re.DOTALL\<close>: the star is greedy and the dot takes every character, so
  the match ends at the last \<open>c\<close> of the text.
\<close>

definition dotstar_then :: "char \<Rightarrow> string \<Rightarrow> string option" where
  "dotstar_then c s = (if c \<in> set s then Some (rev (dropWhile (\<lambda>x. x \<noteq> c) (rev s))) else None)"

text \<open>\<^verbatim>\<open>(\{.*\})\<close> with \<open>re.DOTALL\<close>, anchored.\<close>

fun match_brace_group :: "string \<Rightarrow> string option" where
  "match_brace_group [] = None"
| "match_brace_group (c # r) =
     (if c = CHR ''{'' then map_option ((#) c) (dotstar_then (CHR ''}'') r) else None)"

text \<open>\<^verbatim>\<open>Payload\s*:\s*({.*})\<close> with \<open>re.DOTALL\<close>, anchored.\<close>

definition match_payload :: "string \<Rightarrow> string option" where
  "match_payload s =
     (case lit ''Payload'' s of
        None \<Rightarrow> None
      | Some r1 \<Rightarrow>
          (case lit '':'' (dropWhile isspace r1) of
             None \<Rightarrow> None
           | Some r2 \<Rightarrow> match_brace_group (dropWhile isspace r2)))"

text \<open>\<^verbatim>\<open>URL\s*:\s*(\S+)\<close>, anchored.\<close>

definition match_url :: "string \<Rightarrow> string option" where
  "match_url s =
     (case lit ''URL'' s of
        None \<Rightarrow> None
      | Some r1 \<Rightarrow>
          (case lit '':'' (dropWhile isspace r1) of
             None \<Rightarrow> None
           | Some r2 \<Rightarrow>
               (let g = takeWhile (\<lambda>c. \<not> isspace c) (dropWhile isspace r2)
                in if g = [] then None else Some g)))"

section \<open>Environment and effects\<close>

text \<open>
  The pipeline of \<open>llm_connection_v4.py\<close> and \<open>llm_connection_v5.py\<close> is the same code in both
  files, up to one newline at the end of the policy text. It calls three things that are not
  part of the repository: the model behind \<open>llm.invoke\<close>, \<open>json.loads\<close> and
  \<open>requests.request\<close>. They are the fields of the environment. Each either raises or
  returns; \<open>requests_request\<close> returns the \<open>text\<close> of the response.
\<close>

datatype version = V4 | V5

text \<open>
  The \<open>timeout\<close> argument of \<open>requests\<close>: one number, which \<open>requests\<close> uses for the
  connect phase and for the read phase alike, or a pair (connect, read).
\<close>

datatype timeout = Both nat | ConnectRead nat nat

fun connect_timeout :: "timeout \<Rightarrow> nat" where
  "connect_timeout (Both t) = t"
| "connect_timeout (ConnectRead c r) = c"

fun read_timeout :: "timeout \<Rightarrow> nat" where
  "read_timeout (Both t) = t"
| "read_timeout (ConnectRead c r) = r"

text \<open>
  One call of \<open>requests.request\<close>: the two positional arguments and the keyword
  arguments the source passes; \<open>None\<close> in \<open>hc_params\<close> and \<open>hc_json\<close> is a keyword that
  is not passed at all.
\<close>

record http_call =
  hc_method :: string
  hc_url :: pyval
  hc_headers :: pyval
  hc_params :: "pyval option"
  hc_json :: "pyval option"
  hc_timeout :: timeout

record env =
  script :: version
  llm_invoke :: "string \<Rightarrow> exn + string"
  json_loads :: "string \<Rightarrow> exn + pyval"
  requests_request :: "http_call \<Rightarrow> exn + string"

text \<open>
  What a run does to the outside, in order: a call of the model with its prompt, a call of
  \<open>requests.request\<close>, and the four \<open>print\<close> statements of \<open>user_to_llm\<close> (the parsed
  request, whose \<open>json.dumps\<close> is printed; the described result; the plain answer; the
  error).
\<close>

datatype event =
    LlmInvoke string
  | HttpRequest http_call
  | PrintParsed pyval
  | PrintDescribed string
  | PrintAnswer pyval
  | PrintError string

text \<open>A computation: the events it caused, and the exception it raised or its value.\<close>

type_synonym 'a io = "event list \<times> (exn + 'a)"

definition bind_io :: "'a io \<Rightarrow> ('a \<Rightarrow> 'b io) \<Rightarrow> 'b io" where
  "bind_io m f =
     (case m of
        (t, Inl e) \<Rightarrow> (t, Inl e)
      | (t, Inr x) \<Rightarrow> (case f x of (t', r) \<Rightarrow> (t @ t', r)))"

section \<open>The pipeline\<close>

definition DEFAULT_URL :: string where
  "DEFAULT_URL = ''http://localhost:5000/price''"

definition PLAIN_MARKER :: string where
  "PLAIN_MARKER = ''PLAIN_TEXT:''"

definition system_policy :: "version \<Rightarrow> string" where
  \<open>system_policy v =
     ''You are an API agent that must choose one of two outputs based on the user's request.'' @ [CHR 0x0A]
   @ ''The main target is a website running locally at 'http://localhost:5000/'.'' @ [CHR 0x0A]
   @ ''You must only read the main tab. If the user requests for something outside this scope, ''
   @ ''respond with the text 'I am unable to assist you with that request.'' @ [CHR 0x27, CHR 0x0A]
   @ ''2. If the user asks to fetch or pull info from a website, or to perform an action such as delete, create, update, ''
   @ ''return exactly ONE JSON object with keys "method","url","headers","payload". ''
   @ ''"method" may be GET or POST. ''
   @ ''"url" must be inferred from the user's text. ''
   @ ''"headers" should usually include {"Content-Type":"application/json"} when sending JSON. ''
   @ ''"payload" must be a JSON object or null. ''
   @ ''Use only double quotes, no markdown, no extra commentary.''
   @ ''Never perform read on sensitive information as the users under admin tab, delete or update operations on the database. ''
   @ ''If the user requests read the users under the admin tab, delete or update operations, ''
   @ ''respond with the text 'I am unable to assist you with that request.'' @ [CHR 0x27]
   @ (case v of V4 \<Rightarrow> [CHR 0x0A] | V5 \<Rightarrow> [])\<close>

definition classify_prompt :: "version \<Rightarrow> string \<Rightarrow> string" where
  "classify_prompt v user_goal =
     system_policy v @ [CHR 0x0A, CHR 0x0A] @ ''User message:'' @ [CHR 0x0A] @ user_goal
     @ [CHR 0x0A, CHR 0x0A] @ ''Return either PLAIN_TEXT: ... or the single JSON object.''"

definition classify_or_spec :: "env \<Rightarrow> string \<Rightarrow> string io" where
  "classify_or_spec env user_goal =
     ([LlmInvoke (classify_prompt (script env) user_goal)],
      llm_invoke env (classify_prompt (script env) user_goal))"

text \<open>\<open>_extract_json_block\<close>: Python's \<open>None\<close> is \<open>PyNone\<close>.\<close>

definition extract_json_block :: "env \<Rightarrow> string \<Rightarrow> pyval" where
  "extract_json_block env text =
     (case re_search match_brace_group text of
        None \<Rightarrow> PyNone
      | Some g \<Rightarrow> (case json_loads env g of Inl e \<Rightarrow> PyNone | Inr v \<Rightarrow> v))"

text \<open>
  The fast path at the head of \<open>prompt_to_api\<close>: the request it returns, or \<open>None\<close> when
  the pattern does not match or \<open>json.loads\<close> raises and control goes on to the model.
\<close>

definition fast_path :: "env \<Rightarrow> string \<Rightarrow> pyval option" where
  "fast_path env user_goal =
     (case re_search match_payload user_goal of
        None \<Rightarrow> None
      | Some g \<Rightarrow>
          (case json_loads env g of
             Inl e \<Rightarrow> None
           | Inr payload_obj \<Rightarrow>
               Some (PyDict
                 [(''method'', PyStr ''POST''),
                  (''url'', PyStr (case re_search match_url user_goal of Some u \<Rightarrow> u | None \<Rightarrow> DEFAULT_URL)),
                  (''headers'', PyDict [(''Content-Type'', PyStr ''application/json'')]),
                  (''payload'', payload_obj)])))"

text \<open>The defaults applied under \<open>if spec:\<close>.\<close>

definition normalize :: "(string \<times> pyval) list \<Rightarrow> (string \<times> pyval) list" where
  "normalize spec =
     (let s1 = setdefault ''headers'' (PyDict [(''Content-Type'', PyStr ''application/json'')]) spec;
          s2 = setdefault ''payload'' PyNone s1
      in if \<not> truthy (dict_get s2 ''url'' PyNone) then setitem ''url'' (PyStr DEFAULT_URL) s2 else s2)"

definition prompt_to_api :: "env \<Rightarrow> string \<Rightarrow> pyval io" where
  "prompt_to_api env user_goal =
     (case fast_path env user_goal of
        Some request \<Rightarrow> ([], Inr request)
      | None \<Rightarrow>
          bind_io (classify_or_spec env user_goal) (\<lambda>raw.
            let resp = strip raw in
            if startswith resp PLAIN_MARKER
            then ([], Inr (PyStr (strip (drop (length PLAIN_MARKER) resp))))
            else
              let spec = extract_json_block env resp in
              if truthy spec
              then (case spec of
                      PyDict kvs \<Rightarrow> ([], Inr (PyDict (normalize kvs)))
                    | _ \<Rightarrow> ([], Inl (no_attribute spec ''setdefault'')))
              else ([], Inr (PyStr resp))))"

text \<open>The two calls \<open>run_api\<close> can make.\<close>

definition get_call :: "string \<Rightarrow> pyval \<Rightarrow> pyval \<Rightarrow> pyval \<Rightarrow> http_call" where
  "get_call method url headers payload =
     \<lparr>hc_method = method, hc_url = url, hc_headers = headers,
      hc_params = Some (if is_dict payload then payload else PyNone),
      hc_json = None, hc_timeout = Both 30\<rparr>"

definition body_call :: "string \<Rightarrow> pyval \<Rightarrow> pyval \<Rightarrow> pyval \<Rightarrow> http_call" where
  "body_call method url headers payload =
     \<lparr>hc_method = method, hc_url = url, hc_headers = headers,
      hc_params = None, hc_json = Some payload, hc_timeout = Both 30\<rparr>"

definition dispatch :: "env \<Rightarrow> http_call \<Rightarrow> event list \<times> string" where
  "dispatch env c =
     ([HttpRequest c],
      (case requests_request env c of
         Inr text \<Rightarrow> text
       | Inl (Exception e) \<Rightarrow> ''Request failed: '' @ e))"

text \<open>
  \<open>run_api\<close>: everything is inside the \<open>try\<close>, also \<open>method.upper()\<close>, which raises
  \<open>AttributeError\<close> when \<open>method\<close> is not a \<open>str\<close>.
\<close>

definition run_api :: "env \<Rightarrow> pyval \<Rightarrow> pyval \<Rightarrow> pyval \<Rightarrow> pyval \<Rightarrow> event list \<times> string" where
  "run_api env method url headers payload =
     (let headers = (if truthy headers then headers else PyDict []) in
      case method of
        PyStr m \<Rightarrow>
          if upper m = ''GET''
          then dispatch env (get_call m url headers payload)
          else dispatch env (body_call m url headers payload)
      | _ \<Rightarrow>
          ([], ''Request failed: '' @ (case no_attribute method ''upper'' of Exception e \<Rightarrow> e)))"

definition describe_prompt :: "string \<Rightarrow> string" where
  "describe_prompt response_text =
     ''Summarize the following API response for the user in clear plain text, no code, no JSON, no thinking section. ''
     @ ''Be concise and factual.'' @ [CHR 0x0A, CHR 0x0A] @ ''API response:'' @ [CHR 0x0A] @ response_text"

definition describe_response :: "env \<Rightarrow> string \<Rightarrow> string io" where
  "describe_response env response_text =
     ([LlmInvoke (describe_prompt response_text)],
      (case llm_invoke env (describe_prompt response_text) of
         Inl e \<Rightarrow> Inl e
       | Inr out \<Rightarrow> Inr (strip out)))"

text \<open>
  \<open>user_to_llm\<close> from the line read by \<open>input("> ")\<close> on: \<open>try_body\<close> is the body of its
  \<open>try\<close>, \<open>user_to_llm\<close> adds the handler.
\<close>

definition try_body :: "env \<Rightarrow> string \<Rightarrow> unit io" where
  "try_body env user_input =
     bind_io (prompt_to_api env user_input) (\<lambda>result.
       case result of
         PyDict kvs \<Rightarrow>
           (case run_api env (dict_get kvs ''method'' (PyStr ''GET''))
                             (dict_get kvs ''url'' (PyStr DEFAULT_URL))
                             (dict_get kvs ''headers'' PyNone)
                             (dict_get kvs ''payload'' PyNone) of
              (t, response) \<Rightarrow>
                bind_io (PrintParsed result # t, Inr response) (\<lambda>response.
                  bind_io (describe_response env response) (\<lambda>description.
                    ([PrintDescribed description], Inr ()))))
       | _ \<Rightarrow> ([PrintAnswer result], Inr ()))"

definition user_to_llm :: "env \<Rightarrow> string \<Rightarrow> unit io" where
  "user_to_llm env line =
     (case try_body env (strip line) of
        (t, Inl (Exception e)) \<Rightarrow> (t @ [PrintError e], Inr ())
      | (t, Inr u) \<Rightarrow> (t, Inr u))"

section \<open>The brace span in the words of the specification\<close>

text \<open>
  The span from the first opening brace to the last closing brace of the text, by positions:
  \<open>text[i : j + 1]\<close> where \<open>i\<close> is the first \<open>{\<close> and \<open>j\<close> the last \<open>}\<close>, when
  both exist and \<open>i < j\<close>.
\<close>

definition first_index :: "char \<Rightarrow> string \<Rightarrow> nat option" where
  "first_index c s = (if c \<in> set s then Some (length (takeWhile (\<lambda>x. x \<noteq> c) s)) else None)"

definition last_index :: "char \<Rightarrow> string \<Rightarrow> nat option" where
  "last_index c s =
     (if c \<in> set s then Some (length s - 1 - length (takeWhile (\<lambda>x. x \<noteq> c) (rev s))) else None)"

definition brace_span_spec :: "string \<Rightarrow> string option" where
  "brace_span_spec text =
     (case first_index (CHR ''{'') text of
        None \<Rightarrow> None
      | Some i \<Rightarrow>
          (case last_index (CHR ''}'') text of
             None \<Rightarrow> None
           | Some j \<Rightarrow> if i < j then Some (take (j + 1 - i) (drop i text)) else None))"

section \<open>Sample environments\<close>

text \<open>
  What \<open>json.loads\<close> does on the few texts the examples below give it; every other text
  is treated as one it rejects.
\<close>

definition sample_loads :: "string \<Rightarrow> exn + pyval" where
  \<open>sample_loads s =
     (if s = ''{"a": 1}'' then Inr (PyDict [(''a'', PyInt 1)])
      else if s = ''{}'' then Inr (PyDict [])
      else if s = ''{"a": 1} thanks :}'' then Inl (Exception ''Extra data: line 1 column 10 (char 9)'')
      else if s = ''{"method": "GET", "url": "http://localhost:5000/events"}''
        then Inr (PyDict [(''method'', PyStr ''GET''), (''url'', PyStr ''http://localhost:5000/events'')])
      else Inl (Exception ''Expecting value: line 1 column 1 (char 0)''))\<close>

text \<open>
  A model that answers \<open>reply\<close> to the classification prompt and a fixed sentence to the
  summary prompt, and a network that answers \<open>net\<close>.
\<close>

definition sample_env :: "string \<Rightarrow> exn + string \<Rightarrow> env" where
  "sample_env reply net =
     \<lparr>script = V4,
      llm_invoke = (\<lambda>prompt. Inr (if startswith prompt ''Summarize''
                                    then ''The request could not be completed.'' else reply)),
      json_loads = sample_loads,
      requests_request = (\<lambda>c. net)\<rparr>"

text \<open>The connect and read timeouts of the HTTP calls of a trace.\<close>

fun call_timeouts :: "event list \<Rightarrow> (nat \<times> nat) list" where
  "call_timeouts [] = []"
| "call_timeouts (HttpRequest c # evs) =
     (connect_timeout (hc_timeout c), read_timeout (hc_timeout c)) # call_timeouts evs"
| "call_timeouts (ev # evs) = call_timeouts evs"

text \<open>The HTTP calls and the model calls of a trace.\<close>

fun http_calls :: "event list \<Rightarrow> http_call list" where
  "http_calls [] = []"
| "http_calls (HttpRequest c # evs) = c # http_calls evs"
| "http_calls (ev # evs) = http_calls evs"

fun llm_prompts :: "event list \<Rightarrow> string list" where
  "llm_prompts [] = []"
| "llm_prompts (LlmInvoke p # evs) = p # llm_prompts evs"
| "llm_prompts (ev # evs) = llm_prompts evs"

section \<open>The Request Executor\<close>

lemma upper_get: "upper ''get'' = ''GET''"
  by (simp add: upper_def upper_char_def)


text \<open>
  C1. When the upper-case form of the method is \<open>GET\<close>, \<open>run_api\<close> makes one call, with the
  method and the url as given; a payload that is a \<open>dict\<close> is passed as \<open>params\<close> (the query
  parameters), any other payload gives no \<open>params\<close>, and neither \<open>json\<close> nor \<open>data\<close> is
  passed, so the request has no body. With the method \<open>POST\<close> the payload is passed as
  \<open>json\<close>, which \<open>requests\<close> serialises as the JSON body, and no \<open>params\<close> are passed.
\<close>

theorem run_api_get_post:
  assumes "upper m = ''GET''"
  shows "fst (run_api env (PyStr m) U h p) =
           [HttpRequest \<lparr>hc_method = m, hc_url = U,
              hc_headers = (if truthy h then h else PyDict []),
              hc_params = Some (if is_dict p then p else PyNone),
              hc_json = None, hc_timeout = Both 30\<rparr>]
       \<and> fst (run_api env (PyStr ''POST'') U h p) =
           [HttpRequest \<lparr>hc_method = ''POST'', hc_url = U,
              hc_headers = (if truthy h then h else PyDict []),
              hc_params = None, hc_json = Some p, hc_timeout = Both 30\<rparr>]"
  using assms
  by (simp add: run_api_def dispatch_def get_call_def body_call_def upper_def upper_char_def Let_def)

theorem run_api_get_post_witness:
  "upper ''get'' = ''GET''
   \<and> fst (run_api (sample_env ''ok'' (Inr ''[]'')) (PyStr ''get'') (PyStr ''http://localhost:5000/events'')
            PyNone (PyDict [(''a'', PyInt 1)])) =
       [HttpRequest \<lparr>hc_method = ''get'', hc_url = PyStr ''http://localhost:5000/events'',
          hc_headers = PyDict [], hc_params = Some (PyDict [(''a'', PyInt 1)]),
          hc_json = None, hc_timeout = Both 30\<rparr>]
   \<and> fst (run_api (sample_env ''ok'' (Inr ''[]'')) (PyStr ''POST'') (PyStr ''http://localhost:5000/events'')
            PyNone (PyDict [(''a'', PyInt 1)])) =
       [HttpRequest \<lparr>hc_method = ''POST'', hc_url = PyStr ''http://localhost:5000/events'',
          hc_headers = PyDict [], hc_params = None, hc_json = Some (PyDict [(''a'', PyInt 1)]),
          hc_timeout = Both 30\<rparr>]"
  using run_api_get_post [of "''get''" "sample_env ''ok'' (Inr ''[]'')" "PyStr ''http://localhost:5000/events''"
      PyNone "PyDict [(''a'', PyInt 1)]"]
  by (simp add: upper_get)



text \<open>
  C9, as the code has it. Every call \<open>run_api\<close> makes passes the one number 30 as
  \<open>timeout\<close>, whatever the arguments of \<open>run_api\<close> are: the connect timeout and the read
  timeout are both 30 seconds, and \<open>run_api\<close> has no parameter that changes either.
\<close>

theorem run_api_timeout:
  assumes "HttpRequest c \<in> set (fst (run_api env method url headers payload))"
  shows "hc_timeout c = Both 30 \<and> connect_timeout (hc_timeout c) = 30 \<and> read_timeout (hc_timeout c) = 30"
  using assms
  by (auto simp add: run_api_def dispatch_def get_call_def body_call_def Let_def split: pyval.splits if_splits)

theorem run_api_timeout_witness:
  "HttpRequest (body_call ''POST'' (PyStr ''http://localhost:5000/price'') (PyDict []) PyNone)
     \<in> set (fst (run_api (sample_env ''ok'' (Inr ''[]'')) (PyStr ''POST'')
                (PyStr ''http://localhost:5000/price'') PyNone PyNone))
   \<and> connect_timeout (hc_timeout (body_call ''POST'' (PyStr ''http://localhost:5000/price'') (PyDict []) PyNone)) = 30
   \<and> read_timeout (hc_timeout (body_call ''POST'' (PyStr ''http://localhost:5000/price'') (PyDict []) PyNone)) = 30"
proof -
  have h: "HttpRequest (body_call ''POST'' (PyStr ''http://localhost:5000/price'') (PyDict []) PyNone)
     \<in> set (fst (run_api (sample_env ''ok'' (Inr ''[]'')) (PyStr ''POST'')
                (PyStr ''http://localhost:5000/price'') PyNone PyNone))"
    by (simp add: run_api_def dispatch_def upper_def upper_char_def Let_def)
  from run_api_timeout [OF h] h show ?thesis by simp
qed

text \<open>
  C9 as stated fails: a \<open>GET\<close> through \<open>run_api\<close> is made with a connect timeout of 30
  seconds, not 2.
\<close>

theorem run_api_timeout_counterexample:
  "call_timeouts (fst (run_api (sample_env ''ok'' (Inr ''[]'')) (PyStr ''GET'')
       (PyStr ''http://localhost:5000/events'') PyNone PyNone)) = [(30, 30)]
   \<and> map fst (call_timeouts (fst (run_api (sample_env ''ok'' (Inr ''[]'')) (PyStr ''GET'')
       (PyStr ''http://localhost:5000/events'') PyNone PyNone))) \<noteq> [2]"
  by (simp add: run_api_def dispatch_def get_call_def upper_def upper_char_def Let_def)

section \<open>The Request Normalizer\<close>

lemma setdefault_keys: "fst ` set (setdefault k v kvs) = insert k (fst ` set kvs)"
  by (auto simp add: setdefault_def)

lemma setitem_keys: "fst ` set (setitem k v kvs) = insert k (fst ` set kvs)"
  by (induction kvs) auto

lemma map_of_setdefault:
  "map_of (setdefault k v kvs) k' =
     (if k' = k \<and> map_of kvs k = None then Some v else map_of kvs k')"
proof (cases "k \<in> fst ` set kvs")
  case True
  then have "map_of kvs k \<noteq> None" by (simp add: map_of_eq_None_iff)
  with True show ?thesis by (simp add: setdefault_def)
next
  case False
  then have "map_of kvs k = None" by (simp add: map_of_eq_None_iff)
  with False show ?thesis
    by (simp add: setdefault_def map_add_def split: option.splits)
qed

lemma map_of_setitem: "map_of (setitem k v kvs) k' = (if k' = k then Some v else map_of kvs k')"
  by (induction kvs) auto

lemma setdefault_present: "k \<in> fst ` set kvs \<Longrightarrow> setdefault k v kvs = kvs"
  by (simp add: setdefault_def)

lemma normalize_keys:
  "''headers'' \<in> fst ` set (normalize spec) \<and> ''payload'' \<in> fst ` set (normalize spec)"
  by (simp add: normalize_def Let_def setdefault_keys setitem_keys)

lemma normalize_url_truthy: "truthy (dict_get (normalize spec) ''url'' PyNone)"
  by (simp add: normalize_def Let_def dict_get_def map_of_setitem DEFAULT_URL_def)

lemma normalize_fixed:
  assumes "''headers'' \<in> fst ` set spec" "''payload'' \<in> fst ` set spec"
    "truthy (dict_get spec ''url'' PyNone)"
  shows "normalize spec = spec"
  using assms by (simp add: normalize_def Let_def setdefault_present)

text \<open>
  C8. The defaulting is idempotent: applying the defaults to an object that already went
  through them changes nothing.
\<close>

theorem normalize_idempotent: "normalize (normalize spec) = normalize spec"
  using normalize_keys [of spec] normalize_url_truthy [of spec]
  by (simp add: normalize_fixed)

lemma normalize_nonempty: "normalize spec \<noteq> []"
  using normalize_keys [of spec] by auto

lemma normalize_headers:
  "map_of (normalize spec) ''headers'' =
     Some (case map_of spec ''headers'' of Some v \<Rightarrow> v
           | None \<Rightarrow> PyDict [(''Content-Type'', PyStr ''application/json'')])"
  by (simp add: normalize_def Let_def map_of_setitem map_of_setdefault split: option.splits)

lemma normalize_payload:
  "map_of (normalize spec) ''payload'' =
     Some (case map_of spec ''payload'' of Some v \<Rightarrow> v | None \<Rightarrow> PyNone)"
  by (simp add: normalize_def Let_def map_of_setitem map_of_setdefault split: option.splits)

lemma normalize_url:
  "map_of (normalize spec) ''url'' =
     Some (if truthy (dict_get spec ''url'' PyNone) then dict_get spec ''url'' PyNone
           else PyStr DEFAULT_URL)"
  by (auto simp add: normalize_def Let_def map_of_setitem map_of_setdefault dict_get_def split: option.splits)

lemma normalize_other:
  "k \<notin> {''headers'', ''payload'', ''url''} \<Longrightarrow> map_of (normalize spec) k = map_of spec k"
  by (simp add: normalize_def Let_def map_of_setitem map_of_setdefault)

section \<open>The Response Block Parser\<close>

lemma search_no_open:
  "CHR ''{'' \<notin> set s \<Longrightarrow> re_search match_brace_group s = None"
  by (induction s) auto

lemma search_no_close:
  "CHR ''}'' \<notin> set s \<Longrightarrow> re_search match_brace_group s = None"
  by (induction s) (auto simp add: dotstar_then_def)

lemma search_skip:
  "CHR ''{'' \<notin> set pre \<Longrightarrow> re_search match_brace_group (pre @ s) = re_search match_brace_group s"
  by (induction pre) auto

lemma search_at_open:
  "re_search match_brace_group (CHR ''{'' # r) =
     (if CHR ''}'' \<in> set r then Some (CHR ''{'' # rev (dropWhile (\<lambda>x. x \<noteq> CHR ''}'') (rev r))) else None)"
  by (simp add: dotstar_then_def search_no_close)

lemma takeWhile_all:
  "c \<notin> set xs \<Longrightarrow> takeWhile (\<lambda>x. x \<noteq> c) (xs @ ys) = xs @ takeWhile (\<lambda>x. x \<noteq> c) ys"
  by (induction xs) auto

lemma first_index_split:
  "c \<notin> set pre \<Longrightarrow> first_index c (pre @ c # r) = Some (length pre)"
  by (simp add: first_index_def takeWhile_all)

lemma rev_dropWhile_take:
  "rev (dropWhile P (rev r)) = take (length r - length (takeWhile P (rev r))) r"
proof -
  have "dropWhile P (rev r) = drop (length (takeWhile P (rev r))) (rev r)"
    by (simp add: dropWhile_eq_drop)
  then show ?thesis by (simp add: rev_drop)
qed

lemma takeWhile_len_less_aux:
  "c \<in> set xs \<Longrightarrow> length (takeWhile (\<lambda>x. x \<noteq> c) xs) < length xs"
  by (induction xs) auto

lemma takeWhile_len_less:
  "c \<in> set r \<Longrightarrow> length (takeWhile (\<lambda>x. x \<noteq> c) (rev r)) < length r"
  using takeWhile_len_less_aux [of c "rev r"] by simp



lemma last_index_in_tail:
  assumes "c \<in> set r"
  shows "last_index c (pre @ d # r) =
           Some (length pre + length r - length (takeWhile (\<lambda>x. x \<noteq> c) (rev r)))"
proof -
  have "takeWhile (\<lambda>x. x \<noteq> c) (rev r @ d # rev pre) = takeWhile (\<lambda>x. x \<noteq> c) (rev r)"
    using assms by (simp add: takeWhile_append1)
  with assms show ?thesis by (simp add: last_index_def)
qed

lemma last_index_in_head:
  assumes "c \<notin> set r" "d \<noteq> c" "last_index c (pre @ d # r) = Some j"
  shows "j < length pre"
proof -
  from assms(3) have mem: "c \<in> set (pre @ d # r)"
    by (simp add: last_index_def split: if_splits)
  with assms(1,2) have inpre: "c \<in> set pre" by auto
  have "takeWhile (\<lambda>x. x \<noteq> c) (rev r @ d # rev pre) =
          rev r @ d # takeWhile (\<lambda>x. x \<noteq> c) (rev pre)"
    using assms(1,2) by (simp add: takeWhile_all)
  moreover have "length (takeWhile (\<lambda>x. x \<noteq> c) (rev pre)) < length pre"
    using inpre by (rule takeWhile_len_less)
  ultimately show ?thesis
    using assms(3) mem by (auto simp add: last_index_def split: if_splits)
qed

lemma brace_span_refines: "re_search match_brace_group text = brace_span_spec text"
proof (cases "CHR ''{'' \<in> set text")
  case False
  then show ?thesis by (simp add: search_no_open brace_span_spec_def first_index_def)
next
  case True
  then obtain pre r where split: "text = pre @ CHR ''{'' # r" and pre: "CHR ''{'' \<notin> set pre"
    by (auto dest: split_list_first)
  have lhs: "re_search match_brace_group text =
      (if CHR ''}'' \<in> set r then Some (CHR ''{'' # rev (dropWhile (\<lambda>x. x \<noteq> CHR ''}'') (rev r))) else None)"
    unfolding split using pre by (simp add: search_skip search_at_open del: re_search.simps)
  have fi: "first_index (CHR ''{'') text = Some (length pre)"
    unfolding split using pre by (rule first_index_split)
  show ?thesis
  proof (cases "CHR ''}'' \<in> set r")
    case True
    let ?k = "length (takeWhile (\<lambda>x. x \<noteq> CHR ''}'') (rev r))"
    have k: "?k < length r" using True by (rule takeWhile_len_less)
    have li: "last_index (CHR ''}'') text = Some (length pre + length r - ?k)"
      unfolding split using True by (rule last_index_in_tail)
    have "take (length pre + length r - ?k + 1 - length pre) (drop (length pre) text) =
            CHR ''{'' # take (length r - ?k) r"
      using k by (simp add: split Suc_diff_le)
    with k show ?thesis
      by (simp add: lhs True brace_span_spec_def fi li rev_dropWhile_take)
  next
    case False
    have "brace_span_spec text = None"
    proof (cases "last_index (CHR ''}'') text")
      case None
      then show ?thesis by (simp add: brace_span_spec_def fi)
    next
      case (Some j)
      then have "j < length pre"
        using last_index_in_head [of "CHR ''}''" r "CHR ''{''" pre j] False by (simp add: split)
      then show ?thesis by (simp add: brace_span_spec_def fi Some)
    qed
    then show ?thesis by (simp add: lhs False)
  qed
qed

text \<open>
  C7. \<open>_extract_json_block\<close> takes the span from the first opening brace to the last
  closing brace of the text and gives exactly that span to \<open>json.loads\<close>. It returns what
  \<open>json.loads\<close> returns; when \<open>json.loads\<close> raises, and when the text has no such span,
  it returns \<open>None\<close> and does not raise.
\<close>

theorem extract_json_block_span:
  "extract_json_block env text =
     (case brace_span_spec text of
        None \<Rightarrow> PyNone
      | Some span \<Rightarrow> (case json_loads env span of Inr v \<Rightarrow> v | Inl e \<Rightarrow> PyNone))"
  by (simp add: extract_json_block_def brace_span_refines split: option.splits sum.splits)

section \<open>From the user text to the request\<close>

text \<open>
  C3, as the code has it. When the payload pattern matches, its group is the span from the
  first opening brace behind the marker to the last closing brace of the whole text. When
  \<open>json.loads\<close> accepts that span, \<open>prompt_to_api\<close> returns the request with method
  \<open>POST\<close>, the JSON content-type header, the parsed object as payload, and as url the token
  behind the URL marker, or the default url when there is no URL marker; the model is not
  called.
\<close>

theorem fast_path_request:
  assumes "re_search match_payload user_goal = Some g"
      and "json_loads env g = Inr obj"
  shows "prompt_to_api env user_goal =
           ([], Inr (PyDict
              [(''method'', PyStr ''POST''),
               (''url'', PyStr (case re_search match_url user_goal of
                                 Some u \<Rightarrow> u
                               | None \<Rightarrow> ''http://localhost:5000/price'')),
               (''headers'', PyDict [(''Content-Type'', PyStr ''application/json'')]),
               (''payload'', obj)]))
       \<and> llm_prompts (fst (prompt_to_api env user_goal)) = []"
  using assms by (simp add: prompt_to_api_def fast_path_def DEFAULT_URL_def split: option.splits)

lemma sample_search_payload:
  \<open>re_search match_payload ''Payload: {"a": 1} URL: http://localhost:5000/events'' = Some ''{"a": 1}''\<close>
  by (simp add: match_payload_def lit_def isspace_def dotstar_then_def)

lemma sample_search_url:
  \<open>re_search match_url ''Payload: {"a": 1} URL: http://localhost:5000/events'' = Some ''http://localhost:5000/events''\<close>
  by (simp add: match_url_def lit_def isspace_def)

theorem fast_path_request_witness:
  \<open>re_search match_payload ''Payload: {"a": 1} URL: http://localhost:5000/events'' = Some ''{"a": 1}''
   \<and> json_loads (sample_env ''unused'' (Inr ''[]'')) ''{"a": 1}'' = Inr (PyDict [(''a'', PyInt 1)])
   \<and> prompt_to_api (sample_env ''unused'' (Inr ''[]'')) ''Payload: {"a": 1} URL: http://localhost:5000/events'' =
        ([], Inr (PyDict
              [(''method'', PyStr ''POST''),
               (''url'', PyStr ''http://localhost:5000/events''),
               (''headers'', PyDict [(''Content-Type'', PyStr ''application/json'')]),
               (''payload'', PyDict [(''a'', PyInt 1)])]))\<close>
proof -
  have l: \<open>json_loads (sample_env ''unused'' (Inr ''[]'')) ''{"a": 1}'' = Inr (PyDict [(''a'', PyInt 1)])\<close>
    by (simp add: sample_env_def sample_loads_def)
  from fast_path_request [OF sample_search_payload l, unfolded sample_search_url]
  have "prompt_to_api (sample_env ''unused'' (Inr ''[]'')) ''Payload: {\"a\": 1} URL: http://localhost:5000/events'' =
        ([], Inr (PyDict
              [(''method'', PyStr ''POST''),
               (''url'', PyStr ''http://localhost:5000/events''),
               (''headers'', PyDict [(''Content-Type'', PyStr ''application/json'')]),
               (''payload'', PyDict [(''a'', PyInt 1)])]))"
    by (simp del: re_search.simps)
  with sample_search_payload l show ?thesis by (intro conjI)
qed

lemma try_body_answer:
  assumes "prompt_to_api env user_input = (t, Inr (PyStr s))"
  shows "try_body env user_input = (t @ [PrintAnswer (PyStr s)], Inr ())"
  using assms by (simp add: try_body_def bind_io_def)

lemma marker_len: "length PLAIN_MARKER = 11"
  by (simp add: PLAIN_MARKER_def)

lemma prompt_to_api_model:
  assumes "fast_path env user_goal = None"
      and "llm_invoke env (classify_prompt (script env) user_goal) = Inr out"
  shows "prompt_to_api env user_goal =
           ([LlmInvoke (classify_prompt (script env) user_goal)],
            (if startswith (strip out) ''PLAIN_TEXT:''
             then Inr (PyStr (strip (drop 11 (strip out))))
             else if truthy (extract_json_block env (strip out))
               then (case extract_json_block env (strip out) of
                       PyDict kvs \<Rightarrow> Inr (PyDict (normalize kvs))
                     | v \<Rightarrow> Inl (no_attribute v ''setdefault''))
               else Inr (PyStr (strip out))))"
  using assms unfolding prompt_to_api_def marker_len
  by (simp add: classify_or_spec_def bind_io_def PLAIN_MARKER_def Let_def split: pyval.splits)

text \<open>
  C4. When the fast path does not apply and the output of the model, stripped of surrounding
  whitespace, starts with \<open>PLAIN_TEXT:\<close>, the run calls the model once, prints the text
  behind the marker with surrounding whitespace stripped, and makes no HTTP call.
\<close>

theorem plain_answer:
  assumes "fast_path env (strip line) = None"
      and "llm_invoke env (classify_prompt (script env) (strip line)) = Inr out"
      and "startswith (strip out) ''PLAIN_TEXT:''"
  shows "user_to_llm env line =
           ([LlmInvoke (classify_prompt (script env) (strip line)),
             PrintAnswer (PyStr (strip (drop 11 (strip out))))], Inr ())
       \<and> http_calls (fst (user_to_llm env line)) = []"
proof -
  from prompt_to_api_model [OF assms(1,2)] assms(3)
  have "prompt_to_api env (strip line) =
          ([LlmInvoke (classify_prompt (script env) (strip line))],
           Inr (PyStr (strip (drop 11 (strip out)))))"
    by simp
  from try_body_answer [OF this] show ?thesis
    by (simp add: user_to_llm_def)
qed

text \<open>
  C5, as the code has it. When the stripped output of the model does not start with the
  marker and \<open>_extract_json_block\<close> finds nothing in it, the run prints the output with its
  surrounding whitespace stripped, makes no HTTP call, and ends normally.
\<close>

theorem unparsed_answer:
  assumes "fast_path env (strip line) = None"
      and "llm_invoke env (classify_prompt (script env) (strip line)) = Inr out"
      and "\<not> startswith (strip out) ''PLAIN_TEXT:''"
      and "extract_json_block env (strip out) = PyNone"
  shows "user_to_llm env line =
           ([LlmInvoke (classify_prompt (script env) (strip line)),
             PrintAnswer (PyStr (strip out))], Inr ())
       \<and> http_calls (fst (user_to_llm env line)) = []"
proof -
  from prompt_to_api_model [OF assms(1,2)] assms(3,4)
  have "prompt_to_api env (strip line) =
          ([LlmInvoke (classify_prompt (script env) (strip line))], Inr (PyStr (strip out)))"
    by simp
  from try_body_answer [OF this] show ?thesis
    by (simp add: user_to_llm_def)
qed

text \<open>
  C6, as the code has it. For a parsed object that is not empty, \<open>prompt_to_api\<close> returns
  the object with the defaults applied: \<open>headers\<close> and \<open>payload\<close> keep their value when
  the key is present and get the default when it is absent, \<open>url\<close> keeps a value that is
  true and becomes the default url when it is absent or false (empty), and \<open>method\<close> is
  left as it is.
\<close>

theorem normalizer_defaults:
  assumes "fast_path env user_goal = None"
      and "llm_invoke env (classify_prompt (script env) user_goal) = Inr out"
      and "\<not> startswith (strip out) ''PLAIN_TEXT:''"
      and "extract_json_block env (strip out) = PyDict kvs"
      and "kvs \<noteq> []"
  shows "prompt_to_api env user_goal =
           ([LlmInvoke (classify_prompt (script env) user_goal)], Inr (PyDict (normalize kvs)))
       \<and> map_of (normalize kvs) ''headers'' =
           Some (case map_of kvs ''headers'' of
                   Some v \<Rightarrow> v
                 | None \<Rightarrow> PyDict [(''Content-Type'', PyStr ''application/json'')])
       \<and> map_of (normalize kvs) ''payload'' =
           Some (case map_of kvs ''payload'' of Some v \<Rightarrow> v | None \<Rightarrow> PyNone)
       \<and> map_of (normalize kvs) ''url'' =
           Some (case map_of kvs ''url'' of
                   Some v \<Rightarrow> if truthy v then v else PyStr ''http://localhost:5000/price''
                 | None \<Rightarrow> PyStr ''http://localhost:5000/price'')
       \<and> map_of (normalize kvs) ''method'' = map_of kvs ''method''"
proof -
  from prompt_to_api_model [OF assms(1,2)] assms(3,4,5)
  have "prompt_to_api env user_goal =
          ([LlmInvoke (classify_prompt (script env) user_goal)], Inr (PyDict (normalize kvs)))"
    by simp
  moreover have "map_of (normalize kvs) ''url'' =
           Some (case map_of kvs ''url'' of
                   Some v \<Rightarrow> if truthy v then v else PyStr ''http://localhost:5000/price''
                 | None \<Rightarrow> PyStr ''http://localhost:5000/price'')"
    by (simp add: normalize_url dict_get_def DEFAULT_URL_def split: option.splits)
  moreover have "map_of (normalize kvs) ''method'' = map_of kvs ''method''"
    by (simp add: normalize_other)
  ultimately show ?thesis
    by (simp add: normalize_headers normalize_payload)
qed

lemma classify_prompt_head: "\<not> startswith (classify_prompt v g) ''Summarize''"
  by (simp add: startswith_def classify_prompt_def system_policy_def)

lemma describe_prompt_head: "startswith (describe_prompt r) ''Summarize''"
  by (simp add: startswith_def describe_prompt_def)

lemma sample_env_fields:
  "script (sample_env reply net) = V4"
  "llm_invoke (sample_env reply net) (classify_prompt v g) = Inr reply"
  "llm_invoke (sample_env reply net) (describe_prompt r) = Inr ''The request could not be completed.''"
  "json_loads (sample_env reply net) = sample_loads"
  "requests_request (sample_env reply net) c = net"
  by (simp_all add: sample_env_def classify_prompt_head describe_prompt_head)

lemma strip_eval:
  "strip '' what does the site do? '' = ''what does the site do?''"
  "strip '' PLAIN_TEXT:  The site lists events. '' = ''PLAIN_TEXT:  The site lists events.''"
  "strip ''  The site lists events.'' = ''The site lists events.''"
  "strip ''delete all users'' = ''delete all users''"
  "strip ''I am unable to assist you with that request.'' = ''I am unable to assist you with that request.''"
  "strip '' I am unable to assist you with that request.'' = ''I am unable to assist you with that request.''"
  "strip ''list the events'' = ''list the events''"
  "strip ''{}'' = ''{}''"
  by (simp_all add: strip_def lstrip_def rstrip_def isspace_def)

lemma fast_path_declines:
  "fast_path env ''what does the site do?'' = None"
  "fast_path env ''delete all users'' = None"
  "fast_path env ''list the events'' = None"
  by (simp_all add: fast_path_def match_payload_def lit_def)

theorem plain_answer_witness:
  "fast_path (sample_env '' PLAIN_TEXT:  The site lists events. '' (Inr ''[]'')) (strip '' what does the site do? '') = None
   \<and> llm_invoke (sample_env '' PLAIN_TEXT:  The site lists events. '' (Inr ''[]''))
        (classify_prompt (script (sample_env '' PLAIN_TEXT:  The site lists events. '' (Inr ''[]'')))
           (strip '' what does the site do? '')) = Inr '' PLAIN_TEXT:  The site lists events. ''
   \<and> startswith (strip '' PLAIN_TEXT:  The site lists events. '') ''PLAIN_TEXT:''
   \<and> user_to_llm (sample_env '' PLAIN_TEXT:  The site lists events. '' (Inr ''[]'')) '' what does the site do? '' =
        ([LlmInvoke (classify_prompt V4 ''what does the site do?''),
          PrintAnswer (PyStr ''The site lists events.'')], Inr ())"
proof -
  have a: "fast_path (sample_env '' PLAIN_TEXT:  The site lists events. '' (Inr ''[]'')) (strip '' what does the site do? '') = None"
    by (simp add: strip_eval fast_path_declines)
  have b: "llm_invoke (sample_env '' PLAIN_TEXT:  The site lists events. '' (Inr ''[]''))
        (classify_prompt (script (sample_env '' PLAIN_TEXT:  The site lists events. '' (Inr ''[]'')))
           (strip '' what does the site do? '')) = Inr '' PLAIN_TEXT:  The site lists events. ''"
    by (simp add: sample_env_fields)
  have c: "startswith (strip '' PLAIN_TEXT:  The site lists events. '') ''PLAIN_TEXT:''"
    by (simp add: strip_eval startswith_def)
  from plain_answer [OF a b c] a b c show ?thesis
    by (simp add: strip_eval sample_env_fields)
qed

theorem unparsed_answer_witness:
  "fast_path (sample_env ''I am unable to assist you with that request.'' (Inr ''[]'')) (strip ''delete all users'') = None
   \<and> \<not> startswith (strip ''I am unable to assist you with that request.'') ''PLAIN_TEXT:''
   \<and> extract_json_block (sample_env ''I am unable to assist you with that request.'' (Inr ''[]''))
        (strip ''I am unable to assist you with that request.'') = PyNone
   \<and> user_to_llm (sample_env ''I am unable to assist you with that request.'' (Inr ''[]'')) ''delete all users'' =
        ([LlmInvoke (classify_prompt V4 ''delete all users''),
          PrintAnswer (PyStr ''I am unable to assist you with that request.'')], Inr ())"
proof -
  have a: "fast_path (sample_env ''I am unable to assist you with that request.'' (Inr ''[]'')) (strip ''delete all users'') = None"
    by (simp add: strip_eval fast_path_declines)
  have b: "llm_invoke (sample_env ''I am unable to assist you with that request.'' (Inr ''[]''))
        (classify_prompt (script (sample_env ''I am unable to assist you with that request.'' (Inr ''[]'')))
           (strip ''delete all users'')) = Inr ''I am unable to assist you with that request.''"
    by (simp add: sample_env_fields)
  have c: "\<not> startswith (strip ''I am unable to assist you with that request.'') ''PLAIN_TEXT:''"
    by (simp add: strip_eval startswith_def)
  have d: "extract_json_block (sample_env ''I am unable to assist you with that request.'' (Inr ''[]''))
        (strip ''I am unable to assist you with that request.'') = PyNone"
    by (simp add: strip_eval extract_json_block_def)
  from unparsed_answer [OF a b c d] a c d show ?thesis
    by (simp add: strip_eval sample_env_fields)
qed

text \<open>
  C5 as stated fails: the output of the model starts with a blank, has no marker and no
  braces, and what is printed is not that text but the text without the blank.
\<close>

theorem unparsed_answer_counterexample:
  "\<not> startswith '' I am unable to assist you with that request.'' ''PLAIN_TEXT:''
   \<and> extract_json_block (sample_env '' I am unable to assist you with that request.'' (Inr ''[]''))
        '' I am unable to assist you with that request.'' = PyNone
   \<and> user_to_llm (sample_env '' I am unable to assist you with that request.'' (Inr ''[]'')) ''delete all users'' =
        ([LlmInvoke (classify_prompt V4 ''delete all users''),
          PrintAnswer (PyStr ''I am unable to assist you with that request.'')], Inr ())
   \<and> PyStr ''I am unable to assist you with that request.'' \<noteq> PyStr '' I am unable to assist you with that request.''"
proof -
  have e: "extract_json_block (sample_env '' I am unable to assist you with that request.'' (Inr ''[]''))
        ''I am unable to assist you with that request.'' = PyNone"
    by (simp add: extract_json_block_def)
  have "prompt_to_api (sample_env '' I am unable to assist you with that request.'' (Inr ''[]'')) ''delete all users'' =
          ([LlmInvoke (classify_prompt V4 ''delete all users'')],
           Inr (PyStr ''I am unable to assist you with that request.''))"
    using prompt_to_api_model [of "sample_env '' I am unable to assist you with that request.'' (Inr ''[]'')"
        "''delete all users''" "'' I am unable to assist you with that request.''"]
    by (simp add: fast_path_declines sample_env_fields strip_eval startswith_def e)
  from try_body_answer [OF this] show ?thesis
    by (simp add: user_to_llm_def strip_eval startswith_def extract_json_block_def)
qed


lemma sample_block:
  \<open>extract_json_block (sample_env reply net) ''{}'' = PyDict []\<close>
  \<open>extract_json_block (sample_env reply net) ''{"method": "GET", "url": "http://localhost:5000/events"}'' =
     PyDict [(''method'', PyStr ''GET''), (''url'', PyStr ''http://localhost:5000/events'')]\<close>
  by (simp_all add: extract_json_block_def dotstar_then_def sample_env_fields sample_loads_def)

lemma strip_spec:
  \<open>strip ''{"method": "GET", "url": "http://localhost:5000/events"}'' =
     ''{"method": "GET", "url": "http://localhost:5000/events"}''\<close>
  by (simp add: strip_def lstrip_def rstrip_def isspace_def)

lemma sample_normalize:
  "normalize [(''method'', PyStr ''GET''), (''url'', PyStr ''http://localhost:5000/events'')] =
     [(''method'', PyStr ''GET''), (''url'', PyStr ''http://localhost:5000/events''),
      (''headers'', PyDict [(''Content-Type'', PyStr ''application/json'')]),
      (''payload'', PyNone)]"
  by (simp add: normalize_def setdefault_def dict_get_def Let_def)

theorem normalizer_defaults_witness:
  \<open>fast_path (sample_env ''{"method": "GET", "url": "http://localhost:5000/events"}'' (Inr ''[]'')) ''list the events'' = None
   \<and> \<not> startswith (strip ''{"method": "GET", "url": "http://localhost:5000/events"}'') ''PLAIN_TEXT:''
   \<and> extract_json_block (sample_env ''{"method": "GET", "url": "http://localhost:5000/events"}'' (Inr ''[]''))
        (strip ''{"method": "GET", "url": "http://localhost:5000/events"}'') =
        PyDict [(''method'', PyStr ''GET''), (''url'', PyStr ''http://localhost:5000/events'')]
   \<and> prompt_to_api (sample_env ''{"method": "GET", "url": "http://localhost:5000/events"}'' (Inr ''[]'')) ''list the events'' =
        ([LlmInvoke (classify_prompt V4 ''list the events'')],
         Inr (PyDict
           [(''method'', PyStr ''GET''), (''url'', PyStr ''http://localhost:5000/events''),
            (''headers'', PyDict [(''Content-Type'', PyStr ''application/json'')]),
            (''payload'', PyNone)]))\<close>
proof -
  have a: \<open>fast_path (sample_env ''{"method": "GET", "url": "http://localhost:5000/events"}'' (Inr ''[]'')) ''list the events'' = None\<close>
    by (simp add: fast_path_declines)
  have b: \<open>llm_invoke (sample_env ''{"method": "GET", "url": "http://localhost:5000/events"}'' (Inr ''[]''))
        (classify_prompt (script (sample_env ''{"method": "GET", "url": "http://localhost:5000/events"}'' (Inr ''[]'')))
           ''list the events'') = Inr ''{"method": "GET", "url": "http://localhost:5000/events"}''\<close>
    by (simp add: sample_env_fields)
  have c: \<open>\<not> startswith (strip ''{"method": "GET", "url": "http://localhost:5000/events"}'') ''PLAIN_TEXT:''\<close>
    by (simp add: strip_spec startswith_def)
  have d: \<open>extract_json_block (sample_env ''{"method": "GET", "url": "http://localhost:5000/events"}'' (Inr ''[]''))
        (strip ''{"method": "GET", "url": "http://localhost:5000/events"}'') =
        PyDict [(''method'', PyStr ''GET''), (''url'', PyStr ''http://localhost:5000/events'')]\<close>
    by (simp only: strip_spec sample_block)
  have e: "[(''method'', PyStr ''GET''), (''url'', PyStr ''http://localhost:5000/events'')] \<noteq> []"
    by simp
  from normalizer_defaults [OF a b c d e]
  have \<open>prompt_to_api (sample_env ''{"method": "GET", "url": "http://localhost:5000/events"}'' (Inr ''[]'')) ''list the events'' =
        ([LlmInvoke (classify_prompt V4 ''list the events'')],
         Inr (PyDict
           [(''method'', PyStr ''GET''), (''url'', PyStr ''http://localhost:5000/events''),
            (''headers'', PyDict [(''Content-Type'', PyStr ''application/json'')]),
            (''payload'', PyNone)]))\<close>
    by (simp only: sample_normalize sample_env_fields)
  with a c d show ?thesis by (intro conjI)
qed

text \<open>
  C6 as stated fails on the empty object: \<open>{}\<close> is parsed, but \<open>if spec:\<close> is false for
  it, no default is applied and the text \<open>{}\<close> is returned as a plain answer.
\<close>

theorem normalizer_defaults_counterexample:
  "extract_json_block (sample_env ''{}'' (Inr ''[]'')) ''{}'' = PyDict []
   \<and> prompt_to_api (sample_env ''{}'' (Inr ''[]'')) ''list the events'' =
        ([LlmInvoke (classify_prompt V4 ''list the events'')], Inr (PyStr ''{}''))"
  using prompt_to_api_model [of "sample_env ''{}'' (Inr ''[]'')" "''list the events''" "''{}''"]
  by (simp add: fast_path_declines sample_env_fields strip_eval startswith_def sample_block)

section \<open>The Orchestrator on a failed call\<close>

lemma run_api_result:
  assumes "fst (run_api env method u h p) = [HttpRequest c]"
  shows "snd (run_api env method u h p) =
           (case requests_request env c of
              Inr text \<Rightarrow> text
            | Inl (Exception e) \<Rightarrow> ''Request failed: '' @ e)"
  using assms
  by (auto simp add: run_api_def dispatch_def Let_def split: pyval.splits if_splits)

text \<open>
  C2. When \<open>requests.request\<close> raises, \<open>run_api\<close> returns \<open>Request failed:\<close> followed
  by the text of the exception. The run then calls the model with the summary prompt for that
  text, prints the summary (or the error of that second model call), and ends normally: no
  exception leaves \<open>user_to_llm\<close>.
\<close>

theorem transport_failure:
  assumes "prompt_to_api env (strip line) = (t, Inr (PyDict kvs))"
      and "fst (run_api env (dict_get kvs ''method'' (PyStr ''GET''))
                  (dict_get kvs ''url'' (PyStr ''http://localhost:5000/price''))
                  (dict_get kvs ''headers'' PyNone) (dict_get kvs ''payload'' PyNone)) = [HttpRequest c]"
      and "requests_request env c = Inl (Exception cause)"
  shows "snd (run_api env (dict_get kvs ''method'' (PyStr ''GET''))
                  (dict_get kvs ''url'' (PyStr ''http://localhost:5000/price''))
                  (dict_get kvs ''headers'' PyNone) (dict_get kvs ''payload'' PyNone)) =
           ''Request failed: '' @ cause
       \<and> user_to_llm env line =
           (t @ [PrintParsed (PyDict kvs), HttpRequest c,
                 LlmInvoke (describe_prompt (''Request failed: '' @ cause)),
                 (case llm_invoke env (describe_prompt (''Request failed: '' @ cause)) of
                    Inr d \<Rightarrow> PrintDescribed (strip d)
                  | Inl (Exception e) \<Rightarrow> PrintError e)],
            Inr ())"
proof -
  let ?r = "run_api env (dict_get kvs ''method'' (PyStr ''GET''))
                  (dict_get kvs ''url'' (PyStr ''http://localhost:5000/price''))
                  (dict_get kvs ''headers'' PyNone) (dict_get kvs ''payload'' PyNone)"
  from run_api_result [OF assms(2)] assms(3)
  have r: "snd ?r = ''Request failed: '' @ cause" by simp
  with assms(2) have run: "?r = ([HttpRequest c], ''Request failed: '' @ cause)"
    by (simp add: prod_eq_iff)
  have "try_body env (strip line) =
          (t @ [PrintParsed (PyDict kvs), HttpRequest c,
                LlmInvoke (describe_prompt (''Request failed: '' @ cause))]
             @ (case llm_invoke env (describe_prompt (''Request failed: '' @ cause)) of
                  Inr d \<Rightarrow> [PrintDescribed (strip d)] | Inl e \<Rightarrow> []),
           (case llm_invoke env (describe_prompt (''Request failed: '' @ cause)) of
              Inr d \<Rightarrow> Inr () | Inl e \<Rightarrow> Inl e))"
    using assms(1) run
    by (simp add: try_body_def bind_io_def describe_response_def DEFAULT_URL_def split: sum.splits)
  then have "user_to_llm env line =
           (t @ [PrintParsed (PyDict kvs), HttpRequest c,
                 LlmInvoke (describe_prompt (''Request failed: '' @ cause)),
                 (case llm_invoke env (describe_prompt (''Request failed: '' @ cause)) of
                    Inr d \<Rightarrow> PrintDescribed (strip d)
                  | Inl (Exception e) \<Rightarrow> PrintError e)],
            Inr ())"
    by (simp add: user_to_llm_def split: sum.splits exn.splits)
  with r show ?thesis by simp
qed

lemma strip_summary:
  "strip ''The request could not be completed.'' = ''The request could not be completed.''"
  by (simp add: strip_def lstrip_def rstrip_def isspace_def)

lemma sample_spec_request:
  \<open>prompt_to_api (sample_env ''{"method": "GET", "url": "http://localhost:5000/events"}'' net) ''list the events'' =
        ([LlmInvoke (classify_prompt V4 ''list the events'')],
         Inr (PyDict
           [(''method'', PyStr ''GET''), (''url'', PyStr ''http://localhost:5000/events''),
            (''headers'', PyDict [(''Content-Type'', PyStr ''application/json'')]),
            (''payload'', PyNone)]))\<close>
  using prompt_to_api_model [of \<open>sample_env ''{"method": "GET", "url": "http://localhost:5000/events"}'' net\<close>
      "''list the events''" \<open>''{"method": "GET", "url": "http://localhost:5000/events"}''\<close>]
  by (simp add: fast_path_declines sample_env_fields strip_spec startswith_def sample_block sample_normalize)

lemma sample_run_api:
  "fst (run_api (sample_env reply net)
          (dict_get [(''method'', PyStr ''GET''), (''url'', PyStr ''http://localhost:5000/events''),
                     (''headers'', PyDict [(''Content-Type'', PyStr ''application/json'')]),
                     (''payload'', PyNone)] ''method'' (PyStr ''GET''))
          (dict_get [(''method'', PyStr ''GET''), (''url'', PyStr ''http://localhost:5000/events''),
                     (''headers'', PyDict [(''Content-Type'', PyStr ''application/json'')]),
                     (''payload'', PyNone)] ''url'' (PyStr ''http://localhost:5000/price''))
          (dict_get [(''method'', PyStr ''GET''), (''url'', PyStr ''http://localhost:5000/events''),
                     (''headers'', PyDict [(''Content-Type'', PyStr ''application/json'')]),
                     (''payload'', PyNone)] ''headers'' PyNone)
          (dict_get [(''method'', PyStr ''GET''), (''url'', PyStr ''http://localhost:5000/events''),
                     (''headers'', PyDict [(''Content-Type'', PyStr ''application/json'')]),
                     (''payload'', PyNone)] ''payload'' PyNone)) =
     [HttpRequest \<lparr>hc_method = ''GET'', hc_url = PyStr ''http://localhost:5000/events'',
        hc_headers = PyDict [(''Content-Type'', PyStr ''application/json'')],
        hc_params = Some PyNone, hc_json = None, hc_timeout = Both 30\<rparr>]"
  by (simp add: dict_get_def run_api_def dispatch_def get_call_def upper_def upper_char_def Let_def)

theorem transport_failure_witness:
  \<open>requests_request (sample_env ''{"method": "GET", "url": "http://localhost:5000/events"}''
        (Inl (Exception ''connection refused'')))
      \<lparr>hc_method = ''GET'', hc_url = PyStr ''http://localhost:5000/events'',
        hc_headers = PyDict [(''Content-Type'', PyStr ''application/json'')],
        hc_params = Some PyNone, hc_json = None, hc_timeout = Both 30\<rparr> =
      Inl (Exception ''connection refused'')
   \<and> user_to_llm (sample_env ''{"method": "GET", "url": "http://localhost:5000/events"}''
        (Inl (Exception ''connection refused''))) ''list the events'' =
       ([LlmInvoke (classify_prompt V4 ''list the events''),
         PrintParsed (PyDict
           [(''method'', PyStr ''GET''), (''url'', PyStr ''http://localhost:5000/events''),
            (''headers'', PyDict [(''Content-Type'', PyStr ''application/json'')]),
            (''payload'', PyNone)]),
         HttpRequest \<lparr>hc_method = ''GET'', hc_url = PyStr ''http://localhost:5000/events'',
           hc_headers = PyDict [(''Content-Type'', PyStr ''application/json'')],
           hc_params = Some PyNone, hc_json = None, hc_timeout = Both 30\<rparr>,
         LlmInvoke (describe_prompt ''Request failed: connection refused''),
         PrintDescribed ''The request could not be completed.''],
        Inr ())\<close>
proof -
  let ?env = \<open>sample_env ''{"method": "GET", "url": "http://localhost:5000/events"}''
        (Inl (Exception ''connection refused''))\<close>
  have a: \<open>prompt_to_api ?env (strip ''list the events'') =
        ([LlmInvoke (classify_prompt V4 ''list the events'')],
         Inr (PyDict
           [(''method'', PyStr ''GET''), (''url'', PyStr ''http://localhost:5000/events''),
            (''headers'', PyDict [(''Content-Type'', PyStr ''application/json'')]),
            (''payload'', PyNone)]))\<close>
    by (simp only: strip_eval sample_spec_request)
  have c: \<open>requests_request ?env
      \<lparr>hc_method = ''GET'', hc_url = PyStr ''http://localhost:5000/events'',
        hc_headers = PyDict [(''Content-Type'', PyStr ''application/json'')],
        hc_params = Some PyNone, hc_json = None, hc_timeout = Both 30\<rparr> =
      Inl (Exception ''connection refused'')\<close>
    by (simp only: sample_env_fields)
  have d: "''Request failed: '' @ ''connection refused'' = ''Request failed: connection refused''"
    by simp
  from transport_failure [OF a sample_run_api c, unfolded d] c show ?thesis
    by (simp add: sample_env_fields strip_summary)
qed


section \<open>The fast path and a later closing brace\<close>

lemma sample_search_greedy:
  \<open>re_search match_payload ''Payload: {"a": 1} thanks :}'' = Some ''{"a": 1} thanks :}''\<close>
  by (simp add: match_payload_def lit_def isspace_def dotstar_then_def)

text \<open>
  C3 as stated fails: this text holds the payload marker followed by the valid JSON object
  \<open>{"a": 1}\<close>, but a closing brace comes later in the text, the span up to it is not JSON,
  and \<open>prompt_to_api\<close> calls the model and returns its answer instead of a request.
\<close>

theorem fast_path_request_counterexample:
  \<open>''Payload: {"a": 1} thanks :}'' = ''Payload: '' @ ''{"a": 1}'' @ '' thanks :}''
   \<and> json_loads (sample_env ''I am unable to assist you with that request.'' (Inr ''[]'')) ''{"a": 1}'' =
       Inr (PyDict [(''a'', PyInt 1)])
   \<and> prompt_to_api (sample_env ''I am unable to assist you with that request.'' (Inr ''[]''))
         ''Payload: {"a": 1} thanks :}'' =
       ([LlmInvoke (classify_prompt V4 ''Payload: {"a": 1} thanks :}'')],
        Inr (PyStr ''I am unable to assist you with that request.''))\<close>
proof -
  let ?env = "sample_env ''I am unable to assist you with that request.'' (Inr ''[]'')"
  have f: \<open>fast_path ?env ''Payload: {"a": 1} thanks :}'' = None\<close>
    unfolding fast_path_def sample_search_greedy
    by (simp add: sample_env_fields sample_loads_def)
  have e: "extract_json_block ?env ''I am unable to assist you with that request.'' = PyNone"
    by (simp add: extract_json_block_def)
  have \<open>prompt_to_api ?env ''Payload: {"a": 1} thanks :}'' =
       ([LlmInvoke (classify_prompt V4 ''Payload: {"a": 1} thanks :}'')],
        Inr (PyStr ''I am unable to assist you with that request.''))\<close>
    using prompt_to_api_model [OF f, of "''I am unable to assist you with that request.''"]
    by (simp add: sample_env_fields strip_eval startswith_def e)
  then show ?thesis
    by (simp add: sample_env_fields sample_loads_def)
qed

end
